theory Spec2Isabelle
  imports Complex_Main
begin

section \<open>The trading bot of \<^verbatim>\<open>lambda_function.py\<close>\<close>

text \<open>
  The module talks to four collaborators: the brokerage client (\<^verbatim>\<open>trading_client\<close>),
  the market-data client (\<^verbatim>\<open>data_client\<close>), the CloudWatch client (\<^verbatim>\<open>cw\<close>) and the
  indicator library (\<^verbatim>\<open>talib\<close>). None of them is part of the repository, so each is a
  field of a record \<open>world\<close>. A call of a client may raise and may answer differently
  each time, so its answer is a function of the calls made so far (the trace); the
  two indicator functions are pure.

  Python floats are embedded into \<open>real\<close>: the module only compares them (exact on
  floats that are numbers) and multiplies two of them once, and that rounded product
  is a field of the world as well. A value that is not a number (NaN) is \<open>None\<close>.
  Logging is left out: no call of the logger can change a result.
\<close>

subsection \<open>Values, exceptions and the calls a run makes\<close>

text \<open>A Python exception of class \<^verbatim>\<open>Exception\<close>, with the text \<^verbatim>\<open>str(e)\<close> gives.\<close>

datatype exn = Exn string

datatype order_side = BUY | SELL

datatype time_in_force = DAY

datatype sizing = Notional real | Qty real

text \<open>\<^verbatim>\<open>MarketOrderRequest(symbol=, notional= or qty=, side=, time_in_force=)\<close>\<close>

datatype order_request = MarketOrderRequest string sizing order_side time_in_force

text \<open>
  The external calls, as they are made: \<^verbatim>\<open>trading_client.get_account()\<close>,
  \<^verbatim>\<open>data_client.get_stock_bars(req)\<close> for one symbol,
  \<^verbatim>\<open>trading_client.get_position(symbol)\<close>, \<^verbatim>\<open>trading_client.submit_order\<close> and
  \<^verbatim>\<open>cw.put_metric_data\<close> with the metric's name, dimensions (name and value pairs) and
  value. A call is recorded when it is made, whether it then returns or raises.
\<close>

datatype event =
    Get_account
  | Get_stock_bars string
  | Get_position string
  | Submit_order order_request
  | Put_metric_data string "(string \<times> string) list" real

type_synonym trace = "event list"

text \<open>
  A data frame as far as the module reads it: its column names, and per row the index
  and the cell of column \<^verbatim>\<open>close\<close> (read only after the module has checked that the
  column exists). \<^verbatim>\<open>bars.df\<close> is indexed by (symbol, timestamp), a frame of one symbol
  by the timestamp.
\<close>

datatype 'i frame = Frame (columns: "string list") (rows: "('i \<times> real) list")

text \<open>An open position: \<^verbatim>\<open>float(pos.qty)\<close> and \<^verbatim>\<open>float(pos.unrealized_pl)\<close>.\<close>

datatype position = Position (qty: real) (unrealized_pl: real)

record world =
  trading_get_account :: "trace \<Rightarrow> exn + real"
  trading_get_position :: "trace \<Rightarrow> string \<Rightarrow> exn + position"
  trading_submit_order :: "trace \<Rightarrow> order_request \<Rightarrow> exn + string"
  data_get_stock_bars :: "trace \<Rightarrow> string \<Rightarrow> exn + (string \<times> int) frame"
  cw_put_metric_data :: "trace \<Rightarrow> string \<Rightarrow> (string \<times> string) list \<Rightarrow> real \<Rightarrow> exn option"
  talib_RSI :: "real list \<Rightarrow> nat \<Rightarrow> nat \<Rightarrow> real option"
  talib_EMA :: "real list \<Rightarrow> nat \<Rightarrow> nat \<Rightarrow> real option"
  float_mul :: "real \<Rightarrow> real \<Rightarrow> real"
  SYMBOLS :: "string list"
  RISK_PCT :: real
  MINUTES_HISTORY :: int

text \<open>
  \<open>trading_get_account w tr\<close> is \<^verbatim>\<open>float(acct.equity)\<close> of the account read after the
  calls \<open>tr\<close>; \<open>trading_submit_order\<close> answers with \<^verbatim>\<open>order.id\<close>;
  \<open>cw_put_metric_data\<close> answers \<open>None\<close> when the call returns and \<open>Some e\<close> when it
  raises \<open>e\<close>. \<open>talib_RSI w xs n i\<close> is entry \<open>i\<close> of \<^verbatim>\<open>talib.RSI(xs, timeperiod=n)\<close>,
  an array as long as \<open>xs\<close>, and \<open>None\<close> where that entry is NaN; \<open>talib_EMA\<close> likewise.
  \<open>float_mul\<close> is the product of two floats. The last three fields are the module's
  configuration, read from the environment when it is loaded.
\<close>

subsection \<open>Computations that call out and may raise\<close>

type_synonym 'a prog = "trace \<Rightarrow> (exn + 'a) \<times> trace"

definition return_prog :: "'a \<Rightarrow> 'a prog" where
  "return_prog x tr = (Inr x, tr)"

definition bind_prog :: "'a prog \<Rightarrow> ('a \<Rightarrow> 'b prog) \<Rightarrow> 'b prog" where
  "bind_prog m f tr = (case m tr of (Inl e, tr') \<Rightarrow> (Inl e, tr') | (Inr x, tr') \<Rightarrow> f x tr')"

text \<open>\<^verbatim>\<open>try: m  except Exception: h\<close>\<close>

definition try_except :: "'a prog \<Rightarrow> (exn \<Rightarrow> 'a prog) \<Rightarrow> 'a prog" where
  "try_except m h tr = (case m tr of (Inl e, tr') \<Rightarrow> h e tr' | (Inr x, tr') \<Rightarrow> (Inr x, tr'))"

subsection \<open>Result records\<close>

text \<open>
  The dictionaries the module returns, as association lists in the order the source
  writes the keys.
\<close>

datatype pyval = Str string | Num real

type_synonym result = "(string \<times> pyval) list"

definition field :: "result \<Rightarrow> string \<Rightarrow> pyval option" where
  "field r k = map_of r k"

record response =
  statusCode :: int
  body :: "result list"

subsection \<open>\<^verbatim>\<open>compute_indicators\<close>\<close>

text \<open>
  One row per close: the close, \<^verbatim>\<open>rsi14\<close> and \<^verbatim>\<open>ema9\<close>. \<open>dropna\<close> keeps the rows in
  which every cell is a number (the closes are numbers already).
\<close>

definition compute_indicators :: "world \<Rightarrow> real list \<Rightarrow> (real \<times> real option \<times> real option) list" where
  "compute_indicators w close_series =
     map (\<lambda>i. (close_series ! i, talib_RSI w close_series 14 i, talib_EMA w close_series 9 i))
       [0..<length close_series]"

definition dropna :: "(real \<times> real option \<times> real option) list \<Rightarrow> (real \<times> real \<times> real) list" where
  "dropna df =
     List.map_filter
       (\<lambda>(c, r, e). case r of None \<Rightarrow> None
                     | Some r' \<Rightarrow> (case e of None \<Rightarrow> None | Some e' \<Rightarrow> Some (c, r', e')))
       df"

subsection \<open>\<^verbatim>\<open>fetch_minute_bars\<close>\<close>

text \<open>\<^verbatim>\<open>df.empty\<close>: one of the two axes has length 0.\<close>

definition df_empty :: "'i frame \<Rightarrow> bool" where
  "df_empty df = (rows df = [] \<or> columns df = [])"

text \<open>
  \<^verbatim>\<open>df_sym.iloc[-minutes:]\<close> under the guard \<^verbatim>\<open>len(df_sym) > minutes\<close>: the last
  \<open>minutes\<close> rows for a positive \<open>minutes\<close>, all rows for 0 (the slice \<^verbatim>\<open>[0:]\<close>), and for
  a negative one the rows from position \<open>- minutes\<close> on.
\<close>

definition iloc_last :: "int \<Rightarrow> 'a list \<Rightarrow> 'a list" where
  "iloc_last minutes xs =
     (if 0 < minutes then drop (length xs - nat minutes) xs else drop (nat (- minutes)) xs)"

text \<open>
  The request's window (\<^verbatim>\<open>2 * minutes\<close> back from now) is answered by the world. The
  timestamps are instants, which \<^verbatim>\<open>tz_convert\<close> does not change. \<^verbatim>\<open>sort_index\<close> orders
  the rows by timestamp.
\<close>

definition fetch_minute_bars :: "world \<Rightarrow> string \<Rightarrow> int \<Rightarrow> int frame prog" where
  "fetch_minute_bars w symbol minutes tr =
     (case data_get_stock_bars w tr symbol of
        Inl e \<Rightarrow> (Inl e, tr @ [Get_stock_bars symbol])
      | Inr df \<Rightarrow>
          if symbol \<notin> set (map (\<lambda>((s, t), c). s) (rows df))
          then (Inr (Frame [] []), tr @ [Get_stock_bars symbol])
          else
            let df_sym = map (\<lambda>((s, t), c). (t, c)) (filter (\<lambda>((s, t), c). s = symbol) (rows df));
                df_sym = sort_key fst df_sym;
                df_sym = (if int (length df_sym) > minutes then iloc_last minutes df_sym else df_sym)
            in (Inr (Frame (columns df) df_sym), tr @ [Get_stock_bars symbol]))"

subsection \<open>Account, orders and metrics\<close>

definition get_portfolio_equity :: "world \<Rightarrow> real prog" where
  "get_portfolio_equity w tr = (trading_get_account w tr, tr @ [Get_account])"

definition submit_order :: "world \<Rightarrow> order_request \<Rightarrow> string prog" where
  "submit_order w order_req tr = (trading_submit_order w tr order_req, tr @ [Submit_order order_req])"

definition submit_market_notional_order :: "world \<Rightarrow> string \<Rightarrow> order_side \<Rightarrow> real \<Rightarrow> string prog" where
  "submit_market_notional_order w symbol side notional =
     submit_order w (MarketOrderRequest symbol (Notional notional) side DAY)"

definition get_position :: "world \<Rightarrow> string \<Rightarrow> position prog" where
  "get_position w symbol tr = (trading_get_position w tr symbol, tr @ [Get_position symbol])"

text \<open>\<^verbatim>\<open>publish_metric\<close>: the dimension is added when the symbol is not the empty string.\<close>

definition publish_metric :: "world \<Rightarrow> string \<Rightarrow> real \<Rightarrow> string \<Rightarrow> unit prog" where
  "publish_metric w name v symbol tr =
     (let dims = (if symbol \<noteq> [] then [(''Symbol'', symbol)] else [])
      in (case cw_put_metric_data w tr name dims v of
            Some e \<Rightarrow> (Inl e, tr @ [Put_metric_data name dims v])
          | None \<Rightarrow> (Inr (), tr @ [Put_metric_data name dims v])))"

subsection \<open>\<^verbatim>\<open>evaluate_and_trade\<close>\<close>

text \<open>The block under \<^verbatim>\<open># BUY\<close>.\<close>

definition buy_block :: "world \<Rightarrow> string \<Rightarrow> result prog" where
  "buy_block w symbol =
     bind_prog (get_portfolio_equity w) (\<lambda>equity.
     let notional = float_mul w equity (RISK_PCT w) in
     bind_prog (submit_market_notional_order w symbol BUY notional) (\<lambda>order_id.
     bind_prog (publish_metric w ''Equity'' equity ''Portfolio'') (\<lambda>_.
     bind_prog (publish_metric w ''TradeNotional'' notional symbol) (\<lambda>_.
     bind_prog (publish_metric w ''BuySignal'' 1 symbol) (\<lambda>_.
     return_prog
       [(''symbol'', Str symbol), (''action'', Str ''buy''),
        (''order_id'', Str order_id), (''notional'', Num notional)])))))"

text \<open>The block under \<^verbatim>\<open># SELL\<close>: a \<^verbatim>\<open>try\<close> whose handler catches every exception.\<close>

definition sell_block :: "world \<Rightarrow> string \<Rightarrow> result prog" where
  "sell_block w symbol =
     try_except
       (bind_prog (get_position w symbol) (\<lambda>pos.
        let pnl = unrealized_pl pos; q = qty pos in
        bind_prog (publish_metric w ''TradeQuantity'' q symbol) (\<lambda>_.
        bind_prog (publish_metric w ''PnL'' pnl symbol) (\<lambda>_.
        bind_prog (submit_order w (MarketOrderRequest symbol (Qty q) SELL DAY)) (\<lambda>order_id.
        bind_prog (publish_metric w ''SellSignal'' 1 symbol) (\<lambda>_.
        return_prog
          [(''symbol'', Str symbol), (''action'', Str ''sell''),
           (''order_id'', Str order_id), (''qty'', Num q)]))))))
       (\<lambda>_. return_prog [(''symbol'', Str symbol), (''action'', Str ''nothing_to_sell'')])"

text \<open>From the last row on: the three metrics, then the decision.\<close>

definition decide :: "world \<Rightarrow> string \<Rightarrow> real \<times> real \<times> real \<Rightarrow> result prog" where
  "decide w symbol lastrow =
     (case lastrow of (c, rsi, ema9) \<Rightarrow>
        bind_prog (publish_metric w ''RSI'' rsi symbol) (\<lambda>_.
        bind_prog (publish_metric w ''EMA9'' ema9 symbol) (\<lambda>_.
        bind_prog (publish_metric w ''Price'' c symbol) (\<lambda>_.
        if rsi < 30 \<and> c < ema9 then buy_block w symbol
        else if rsi > 70 \<and> c > ema9 then sell_block w symbol
        else return_prog
               [(''symbol'', Str symbol), (''action'', Str ''no_signal''),
                (''rsi'', Num rsi), (''close'', Num c), (''ema9'', Num ema9)]))))"

definition evaluate_and_trade :: "world \<Rightarrow> string \<Rightarrow> result prog" where
  "evaluate_and_trade w symbol =
     bind_prog (fetch_minute_bars w symbol (MINUTES_HISTORY w)) (\<lambda>df_bars.
     if df_empty df_bars \<or> ''close'' \<notin> set (columns df_bars)
     then return_prog [(''symbol'', Str symbol), (''action'', Str ''no_data'')]
     else
       let close = map snd (rows df_bars);
           indicators = dropna (compute_indicators w close)
       in if indicators = []
          then return_prog [(''symbol'', Str symbol), (''action'', Str ''insufficient_data'')]
          else decide w symbol (last indicators))"

subsection \<open>\<^verbatim>\<open>lambda_handler\<close>\<close>

text \<open>
  \<^verbatim>\<open>str.strip()\<close> and \<^verbatim>\<open>str.upper()\<close> on ASCII text, which ticker symbols are: the
  white space of \<^verbatim>\<open>str.isspace\<close> below code 128 is 9 to 13, 28 to 32.
\<close>

definition isspace :: "char \<Rightarrow> bool" where
  "isspace c = (let n = (of_char c :: nat) in (9 \<le> n \<and> n \<le> 13) \<or> (28 \<le> n \<and> n \<le> 32))"

definition strip :: "string \<Rightarrow> string" where
  "strip s = rev (dropWhile isspace (rev (dropWhile isspace s)))"

definition upper_char :: "char \<Rightarrow> char" where
  "upper_char c =
     (let n = (of_char c :: nat) in if 97 \<le> n \<and> n \<le> 122 then char_of (n - 32) else c)"

definition upper :: "string \<Rightarrow> string" where
  "upper s = map upper_char s"

text \<open>
  One turn of the \<^verbatim>\<open>for\<close> loop: the record appended to \<^verbatim>\<open>results\<close> for the
  configured string \<open>symb\<close> (the loop's \<^verbatim>\<open>sym\<close>), and the trace after it. The handler
  catches every exception of the symbol's pipeline.
\<close>

definition handle_symbol :: "world \<Rightarrow> string \<Rightarrow> trace \<Rightarrow> result \<times> trace" where
  "handle_symbol w symb tr =
     (case evaluate_and_trade w (upper (strip symb)) tr of
        (Inr r, tr') \<Rightarrow> (r, tr')
      | (Inl (Exn msg), tr') \<Rightarrow>
          ([(''symbol'', Str symb), (''action'', Str ''error''), (''error'', Str msg)], tr'))"

text \<open>The loop over the symbols left, with the results so far.\<close>

fun symbols_loop :: "world \<Rightarrow> string list \<Rightarrow> result list \<Rightarrow> trace \<Rightarrow> result list \<times> trace" where
  "symbols_loop w [] results tr = (results, tr)"
| "symbols_loop w (symb # syms) results tr =
     (case handle_symbol w symb tr of (r, tr') \<Rightarrow> symbols_loop w syms (results @ [r]) tr')"

definition lambda_handler :: "world \<Rightarrow> response prog" where
  "lambda_handler w =
     bind_prog (get_portfolio_equity w) (\<lambda>equity.
     bind_prog (publish_metric w ''Equity'' equity ''Portfolio'') (\<lambda>_.
     (\<lambda>tr. case symbols_loop w (SYMBOLS w) [] tr of
             (results, tr') \<Rightarrow> (Inr \<lparr>statusCode = 200, body = results\<rparr>, tr'))))"

section \<open>Vocabulary of the properties\<close>

text \<open>The orders a trace holds: the calls of \<^verbatim>\<open>submit_order\<close>, accepted or rejected.\<close>

fun is_order :: "event \<Rightarrow> bool" where
  "is_order (Submit_order r) = True"
| "is_order ev = False"

definition orders :: "trace \<Rightarrow> event list" where
  "orders tr = filter is_order tr"

text \<open>How often a trace reads the account.\<close>

definition equity_reads :: "trace \<Rightarrow> nat" where
  "equity_reads tr = length (filter (\<lambda>ev. ev = Get_account) tr)"

text \<open>
  The row \<^verbatim>\<open>indicators.iloc[-1]\<close> of a fetched frame that has passed the check for data:
  the last row in which both indicators are numbers, if there is one.
\<close>

definition latest_row :: "world \<Rightarrow> int frame \<Rightarrow> (real \<times> real \<times> real) option" where
  "latest_row w df_bars =
     (let indicators = dropna (compute_indicators w (map snd (rows df_bars)))
      in if indicators = [] then None else Some (last indicators))"

text \<open>The three calls of \<^verbatim>\<open>publish_metric\<close> that precede the decision.\<close>

definition publish_indicators :: "world \<Rightarrow> string \<Rightarrow> real \<times> real \<times> real \<Rightarrow> unit prog" where
  "publish_indicators w symbol lastrow =
     (case lastrow of (c, rsi, ema9) \<Rightarrow>
        bind_prog (publish_metric w ''RSI'' rsi symbol) (\<lambda>_.
        bind_prog (publish_metric w ''EMA9'' ema9 symbol) (\<lambda>_.
        publish_metric w ''Price'' c symbol)))"


text \<open>
  Modelled from the spec: the warm-up of \<^verbatim>\<open>talib.RSI\<close>, a library that is not part of
  the repository. The spec says of the momentum index of period 14 that it "requires at
  least 15 closes to produce its first value (14 differences + seed); earlier positions
  are undefined": the entries at positions 0 to 13 are NaN.
\<close>

definition rsi_lookback :: "world \<Rightarrow> bool" where
  "rsi_lookback w = (\<forall>xs i. i < 14 \<longrightarrow> talib_RSI w xs 14 i = None)"

text \<open>The trace at the moment the loop over \<open>syms\<close>, started at \<open>tr\<close>, reaches position \<open>i\<close>.\<close>

definition trace_before :: "world \<Rightarrow> string list \<Rightarrow> nat \<Rightarrow> trace \<Rightarrow> trace" where
  "trace_before w syms i tr = snd (symbols_loop w (take i syms) [] tr)"


section \<open>Concrete worlds\<close>

text \<open>
  Fifteen one-minute bars of one symbol, flat at 10 and then dropping to 8, and a world
  that serves them, accepts every call and whose indicators are 25 and 9 once they are
  defined (after 14 and 8 positions): a BUY.
\<close>

definition bars15 :: "string \<Rightarrow> ((string \<times> int) \<times> real) list" where
  "bars15 s = [((s, 1), 10), ((s, 2), 10), ((s, 3), 10), ((s, 4), 10), ((s, 5), 10),
     ((s, 6), 10), ((s, 7), 10), ((s, 8), 10), ((s, 9), 10), ((s, 10), 10),
     ((s, 11), 10), ((s, 12), 10), ((s, 13), 8), ((s, 14), 8), ((s, 15), 8)]"

definition calm_world :: world where
  "calm_world =
     \<lparr> trading_get_account = (\<lambda>tr. Inr 100000),
       trading_get_position = (\<lambda>tr s. Inr (Position 10 5)),
       trading_submit_order = (\<lambda>tr r. Inr ''order-1''),
       data_get_stock_bars = (\<lambda>tr s. Inr (Frame [''open'', ''close''] (bars15 s))),
       cw_put_metric_data = (\<lambda>tr n d v. None),
       talib_RSI = (\<lambda>xs n i. if i < n then None else Some 25),
       talib_EMA = (\<lambda>xs n i. if i + 1 < n then None else Some 9),
       float_mul = (\<lambda>x y. x * y),
       SYMBOLS = [''AAPL''],
       RISK_PCT = 1 / 50,
       MINUTES_HISTORY = 30 \<rparr>"


text \<open>Momentum index 75 and trend average 7 under a close of 8: a SELL.\<close>

definition rally_world :: world where
  "rally_world =
     calm_world \<lparr> talib_RSI := (\<lambda>xs n i. if i < n then None else Some 75),
                  talib_EMA := (\<lambda>xs n i. if i + 1 < n then None else Some 7) \<rparr>"

text \<open>A SELL with no open position: the lookup of the position raises.\<close>

definition flat_world :: world where
  "flat_world =
     rally_world \<lparr> trading_get_position := (\<lambda>tr s. Inl (Exn ''position does not exist'')) \<rparr>"

text \<open>A SELL with an open position of 10 shares, whose order the venue rejects.\<close>

definition closed_world :: world where
  "closed_world =
     rally_world \<lparr> trading_submit_order := (\<lambda>tr r. Inl (Exn ''market is closed'')) \<rparr>"

text \<open>Three bars only.\<close>

definition short_world :: world where
  "short_world =
     calm_world \<lparr> data_get_stock_bars :=
       (\<lambda>tr s. Inr (Frame [''open'', ''close''] [((s, 1), 10), ((s, 2), 9), ((s, 3), 8)])) \<rparr>"

text \<open>The provider answers with no bar at all.\<close>

definition silent_world :: world where
  "silent_world =
     calm_world \<lparr> data_get_stock_bars := (\<lambda>tr s. Inr (Frame [''open'', ''close''] [])) \<rparr>"



text \<open>The metrics sink refuses every metric.\<close>

definition deaf_world :: world where
  "deaf_world = calm_world \<lparr> cw_put_metric_data := (\<lambda>tr n d v. Some (Exn ''Throttled'')) \<rparr>"

text \<open>The brokerage does not answer the read of the account.\<close>

definition offline_world :: world where
  "offline_world =
     calm_world \<lparr> trading_get_account := (\<lambda>tr. Inl (Exn ''account unavailable'')) \<rparr>"

text \<open>Three configured symbols; the fetch of the second one raises.\<close>

definition three_world :: world where
  "three_world =
     calm_world \<lparr> data_get_stock_bars :=
                    (\<lambda>tr s. if s = ''BAD'' then Inl (Exn ''fetch failed'')
                             else Inr (Frame [''open'', ''close''] (bars15 s))),
                  SYMBOLS := [''AAPL'', '' bad'', ''MSFT''] \<rparr>"

section \<open>Basic facts\<close>

lemma upt_15: "[0..<15] = [0, 1, 2, 3, 4, 5, 6, 7, 8, 9, 10, 11, 12, 13, 14]"
  by (simp add: upt_rec)

lemma fetch_trace:
  "fetch_minute_bars w symbol minutes tr = (res, tr') \<Longrightarrow> tr' = tr @ [Get_stock_bars symbol]"
  by (auto simp: fetch_minute_bars_def Let_def split: sum.splits if_splits)

lemma decide_publish:
  "decide w symbol (c, rsi, ema9) =
     bind_prog (publish_indicators w symbol (c, rsi, ema9)) (\<lambda>_.
       if rsi < 30 \<and> c < ema9 then buy_block w symbol
       else if rsi > 70 \<and> c > ema9 then sell_block w symbol
       else return_prog
              [(''symbol'', Str symbol), (''action'', Str ''no_signal''),
               (''rsi'', Num rsi), (''close'', Num c), (''ema9'', Num ema9)])"
  by (rule ext) (simp add: decide_def publish_indicators_def bind_prog_def split: prod.splits sum.splits)

lemma evaluate_decide:
  assumes "fetch_minute_bars w symbol (MINUTES_HISTORY w) tr = (Inr df, tr1)"
    and "\<not> df_empty df" and "''close'' \<in> set (columns df)"
    and "latest_row w df = Some lastrow"
  shows "evaluate_and_trade w symbol tr = decide w symbol lastrow tr1"
  using assms
  by (auto simp: evaluate_and_trade_def bind_prog_def latest_row_def Let_def split: if_splits)




subsection \<open>What a call adds to the trace\<close>

lemma orders_append: "orders (tr @ tr') = orders tr @ orders tr'"
  by (simp add: orders_def)

lemma publish_metric_trace:
  "publish_metric w name v symbol tr = (res, tr') \<Longrightarrow>
   orders tr' = orders tr \<and> equity_reads tr' = equity_reads tr"
  by (auto simp: publish_metric_def Let_def orders_def equity_reads_def split: option.splits)

lemma publish_indicators_trace:
  assumes "publish_indicators w symbol lastrow tr = (res, tr')"
  shows "orders tr' = orders tr \<and> equity_reads tr' = equity_reads tr"
proof -
  obtain c rsi ema9 where lr: "lastrow = (c, rsi, ema9)" by (cases lastrow)
  obtain r1 t1 where p1: "publish_metric w ''RSI'' rsi symbol tr = (r1, t1)" by fastforce
  obtain r2 t2 where p2: "publish_metric w ''EMA9'' ema9 symbol t1 = (r2, t2)" by fastforce
  obtain r3 t3 where p3: "publish_metric w ''Price'' c symbol t2 = (r3, t3)" by fastforce
  have "tr' = t1 \<or> tr' = t2 \<or> tr' = t3"
    using assms p1 p2 p3 by (auto simp: lr publish_indicators_def bind_prog_def split: sum.splits)
  then show ?thesis
    using publish_metric_trace [OF p1] publish_metric_trace [OF p2] publish_metric_trace [OF p3]
    by auto
qed

lemma publish_indicators_ext:
  assumes "publish_indicators w symbol lastrow tr = (res, tr')"
  shows "\<exists>u. tr' = tr @ u"
  using assms
  by (cases lastrow)
    (auto simp: publish_indicators_def bind_prog_def publish_metric_def Let_def
      split: sum.splits option.splits)

lemma fetch_orders:
  "fetch_minute_bars w symbol minutes tr = (res, tr') \<Longrightarrow>
   orders tr' = orders tr \<and> equity_reads tr' = equity_reads tr"
  by (auto dest!: fetch_trace simp: orders_def equity_reads_def)

subsection \<open>The two blocks, the decision and the pipeline\<close>

lemma buy_block_facts:
  assumes "buy_block w symbol tr = (res, tr')"
  shows "(\<exists>u. tr' = tr @ u) \<and> equity_reads tr' = equity_reads tr + 1 \<and>
         (\<forall>r. res = Inr r \<longrightarrow>
            field r ''symbol'' = Some (Str symbol) \<and> field r ''action'' = Some (Str ''buy''))"
  using assms
  by (auto simp: buy_block_def bind_prog_def get_portfolio_equity_def
      submit_market_notional_order_def submit_order_def publish_metric_def return_prog_def
      Let_def field_def equity_reads_def
      split: sum.splits option.splits)

lemma sell_block_facts:
  assumes "sell_block w symbol tr = (res, tr')"
  shows "(\<exists>u. tr' = tr @ u) \<and> equity_reads tr' = equity_reads tr \<and>
         (\<exists>r. res = Inr r \<and> field r ''symbol'' = Some (Str symbol) \<and>
            field r ''action'' \<noteq> Some (Str ''buy''))"
  using assms
  by (auto simp: sell_block_def try_except_def bind_prog_def get_position_def
      submit_order_def publish_metric_def return_prog_def Let_def field_def equity_reads_def
      split: sum.splits option.splits)




lemma decide_facts:
  assumes "decide w symbol lastrow tr = (res, tr')"
  shows "(\<exists>u. tr' = tr @ u) \<and> equity_reads tr' \<le> equity_reads tr + 1 \<and>
         (\<forall>r. res = Inr r \<longrightarrow> field r ''symbol'' = Some (Str symbol) \<and>
            equity_reads tr' =
              equity_reads tr + (if field r ''action'' = Some (Str ''buy'') then 1 else 0))"
proof -
  obtain c rsi ema9 where lr: "lastrow = (c, rsi, ema9)" by (cases lastrow)
  obtain r1 t1 where pub: "publish_indicators w symbol (c, rsi, ema9) tr = (r1, t1)" by fastforce
  obtain u1 where u1: "t1 = tr @ u1" using publish_indicators_ext [OF pub] by blast
  have e1: "equity_reads t1 = equity_reads tr" using publish_indicators_trace [OF pub] by simp
  show ?thesis
  proof (cases r1)
    case (Inl err)
    then have "res = Inl err" "tr' = t1"
      using assms pub by (simp_all add: lr decide_publish bind_prog_def)
    then show ?thesis using u1 e1 by simp
  next
    case (Inr x)
    then have d: "(if rsi < 30 \<and> c < ema9 then buy_block w symbol t1
         else if rsi > 70 \<and> c > ema9 then sell_block w symbol t1
         else (Inr [(''symbol'', Str symbol), (''action'', Str ''no_signal''),
                    (''rsi'', Num rsi), (''close'', Num c), (''ema9'', Num ema9)], t1)) = (res, tr')"
      using assms pub
      by (auto simp: lr decide_publish bind_prog_def return_prog_def split: if_splits)
    consider (buy) "rsi < 30 \<and> c < ema9"
      | (sell) "\<not> (rsi < 30 \<and> c < ema9)" "rsi > 70 \<and> c > ema9"
      | (none) "\<not> (rsi < 30 \<and> c < ema9)" "\<not> (rsi > 70 \<and> c > ema9)"
      by blast
    then show ?thesis
    proof cases
      case buy
      with d have "buy_block w symbol t1 = (res, tr')" by simp
      from buy_block_facts [OF this] u1 e1 show ?thesis by auto
    next
      case sell
      with d have "sell_block w symbol t1 = (res, tr')" by simp
      from sell_block_facts [OF this] u1 e1 show ?thesis by auto
    next
      case none
      with d have "res = Inr [(''symbol'', Str symbol), (''action'', Str ''no_signal''),
                    (''rsi'', Num rsi), (''close'', Num c), (''ema9'', Num ema9)]" "tr' = t1"
        by simp_all
      then show ?thesis using u1 e1 by (simp add: field_def)
    qed
  qed
qed

lemma evaluate_facts:
  assumes "evaluate_and_trade w symbol tr = (res, tr')"
  shows "(\<exists>u. tr' = tr @ u) \<and> equity_reads tr' \<le> equity_reads tr + 1 \<and>
         (\<forall>r. res = Inr r \<longrightarrow> field r ''symbol'' = Some (Str symbol) \<and>
            equity_reads tr' =
              equity_reads tr + (if field r ''action'' = Some (Str ''buy'') then 1 else 0))"
proof -
  obtain r1 t1 where f: "fetch_minute_bars w symbol (MINUTES_HISTORY w) tr = (r1, t1)"
    by fastforce
  have t1: "t1 = tr @ [Get_stock_bars symbol]" using fetch_trace [OF f] .
  have e1: "equity_reads t1 = equity_reads tr" using fetch_orders [OF f] by simp
  show ?thesis
  proof (cases r1)
    case (Inl err)
    then have "res = Inl err" "tr' = t1"
      using assms f by (simp_all add: evaluate_and_trade_def bind_prog_def)
    then show ?thesis using t1 e1 by simp
  next
    case (Inr df)
    show ?thesis
    proof (cases "df_empty df \<or> ''close'' \<notin> set (columns df)")
      case True
      then have "res = Inr [(''symbol'', Str symbol), (''action'', Str ''no_data'')]" "tr' = t1"
        using assms f Inr by (auto simp: evaluate_and_trade_def bind_prog_def return_prog_def)
      then show ?thesis using t1 e1 by (simp add: field_def)
    next
      case False
      show ?thesis
      proof (cases "dropna (compute_indicators w (map snd (rows df))) = []")
        case True
        then have "res = Inr [(''symbol'', Str symbol), (''action'', Str ''insufficient_data'')]"
          "tr' = t1"
          using assms f Inr False
          by (auto simp: evaluate_and_trade_def bind_prog_def return_prog_def)
        then show ?thesis using t1 e1 by (simp add: field_def)
      next
        case nonempty: False
        then have "decide w symbol (last (dropna (compute_indicators w (map snd (rows df))))) t1
            = (res, tr')"
          using assms f Inr False by (auto simp: evaluate_and_trade_def bind_prog_def Let_def)
        from decide_facts [OF this] t1 e1 show ?thesis by auto
      qed
    qed
  qed
qed

lemma short_history_no_rows:
  assumes "rsi_lookback w" and "length xs < 15"
  shows "dropna (compute_indicators w xs) = []"
proof -
  have "\<forall>i < length xs. talib_RSI w xs 14 i = None"
    using assms by (auto simp: rsi_lookback_def)
  then show ?thesis
    by (auto simp: dropna_def compute_indicators_def List.map_filter_def filter_empty_conv)
qed

subsection \<open>The loop over the symbols\<close>

lemma handle_symbol_cases:
  "fst (handle_symbol w symb tr) =
     (case fst (evaluate_and_trade w (upper (strip symb)) tr) of
        Inl (Exn msg) \<Rightarrow> [(''symbol'', Str symb), (''action'', Str ''error''), (''error'', Str msg)]
      | Inr r \<Rightarrow> r)"
  by (auto simp: handle_symbol_def split: prod.splits sum.splits exn.splits)

lemma handle_symbol_ext: "\<exists>u. snd (handle_symbol w symb tr) = tr @ u"
proof -
  obtain res tr' where ev: "evaluate_and_trade w (upper (strip symb)) tr = (res, tr')"
    by fastforce
  then have "snd (handle_symbol w symb tr) = tr'"
    by (auto simp: handle_symbol_def split: sum.splits exn.splits)
  then show ?thesis using evaluate_facts [OF ev] by simp
qed

lemma loop_acc:
  "symbols_loop w syms acc tr =
     (acc @ fst (symbols_loop w syms [] tr), snd (symbols_loop w syms [] tr))"
proof (induction syms arbitrary: acc tr)
  case Nil
  then show ?case by simp
next
  case (Cons s syms)
  obtain r t where h: "handle_symbol w s tr = (r, t)" by fastforce
  show ?case
    using Cons.IH [of "acc @ [r]" t] Cons.IH [of "[r]" t] by (simp add: h)
qed

lemma loop_Cons:
  "symbols_loop w (s # syms) [] tr =
     (fst (handle_symbol w s tr) # fst (symbols_loop w syms [] (snd (handle_symbol w s tr))),
      snd (symbols_loop w syms [] (snd (handle_symbol w s tr))))"
  using loop_acc [of w syms "[fst (handle_symbol w s tr)]" "snd (handle_symbol w s tr)"]
  by (simp add: case_prod_beta)

lemma loop_length: "length (fst (symbols_loop w syms [] tr)) = length syms"
  by (induction syms arbitrary: tr) (simp_all add: loop_Cons del: symbols_loop.simps(2))

lemma loop_ext: "\<exists>u. snd (symbols_loop w syms [] tr) = tr @ u"
proof (induction syms arbitrary: tr)
  case Nil
  then show ?case by simp
next
  case (Cons s syms)
  obtain u where u: "snd (handle_symbol w s tr) = tr @ u" using handle_symbol_ext by blast
  obtain v where "snd (symbols_loop w syms [] (tr @ u)) = (tr @ u) @ v" using Cons.IH by blast
  then show ?case by (simp add: loop_Cons u del: symbols_loop.simps(2))
qed

lemma loop_nth:
  "i < length syms \<Longrightarrow>
   fst (symbols_loop w syms [] tr) ! i =
     fst (handle_symbol w (syms ! i) (trace_before w syms i tr))"
proof (induction syms arbitrary: i tr)
  case Nil
  then show ?case by simp
next
  case (Cons s syms)
  show ?case
  proof (cases i)
    case 0
    then show ?thesis by (simp add: loop_Cons trace_before_def del: symbols_loop.simps(2))
  next
    case (Suc j)
    with Cons.prems have j: "j < length syms" by simp
    show ?thesis
      using Cons.IH [OF j, of "snd (handle_symbol w s tr)"]
      by (simp add: Suc loop_Cons trace_before_def del: symbols_loop.simps(2))
  qed
qed

subsection \<open>Runs in the concrete worlds\<close>

lemmas eval_defs =
  evaluate_and_trade_def bind_prog_def fetch_minute_bars_def df_empty_def
  compute_indicators_def dropna_def List.map_filter_simps upt_15 decide_def
  buy_block_def sell_block_def try_except_def get_position_def publish_metric_def
  submit_order_def submit_market_notional_order_def get_portfolio_equity_def
  return_prog_def bars15_def lambda_handler_def handle_symbol_def
  upper_def strip_def isspace_def upper_char_def Let_def

lemma norm_examples:
  "upper (strip ''AAPL'') = ''AAPL''" "upper (strip '' bad'') = ''BAD''"
  "upper (strip ''MSFT'') = ''MSFT''"
  by code_simp+

lemma calm_pipeline_AAPL:
  "evaluate_and_trade calm_world ''AAPL'' [] =
     (Inr [(''symbol'', Str ''AAPL''), (''action'', Str ''buy''),
           (''order_id'', Str ''order-1''), (''notional'', Num 2000)],
      [Get_stock_bars ''AAPL'', Put_metric_data ''RSI'' [(''Symbol'', ''AAPL'')] 25,
       Put_metric_data ''EMA9'' [(''Symbol'', ''AAPL'')] 9,
       Put_metric_data ''Price'' [(''Symbol'', ''AAPL'')] 8, Get_account,
       Submit_order (MarketOrderRequest ''AAPL'' (Notional 2000) BUY DAY),
       Put_metric_data ''Equity'' [(''Symbol'', ''Portfolio'')] 100000,
       Put_metric_data ''TradeNotional'' [(''Symbol'', ''AAPL'')] 2000,
       Put_metric_data ''BuySignal'' [(''Symbol'', ''AAPL'')] 1])"
  by (simp add: eval_defs calm_world_def)

lemma three_pipeline:
  "s \<noteq> ''BAD'' \<Longrightarrow> s \<noteq> [] \<Longrightarrow> evaluate_and_trade three_world s tr =
     (Inr [(''symbol'', Str s), (''action'', Str ''buy''),
           (''order_id'', Str ''order-1''), (''notional'', Num 2000)],
      tr @ [Get_stock_bars s, Put_metric_data ''RSI'' [(''Symbol'', s)] 25,
       Put_metric_data ''EMA9'' [(''Symbol'', s)] 9,
       Put_metric_data ''Price'' [(''Symbol'', s)] 8, Get_account,
       Submit_order (MarketOrderRequest s (Notional 2000) BUY DAY),
       Put_metric_data ''Equity'' [(''Symbol'', ''Portfolio'')] 100000,
       Put_metric_data ''TradeNotional'' [(''Symbol'', s)] 2000,
       Put_metric_data ''BuySignal'' [(''Symbol'', s)] 1])"
  by (simp add: eval_defs three_world_def calm_world_def)

lemma bad_pipeline:
  "evaluate_and_trade three_world ''BAD'' tr =
     (Inl (Exn ''fetch failed''), tr @ [Get_stock_bars ''BAD''])"
  by (simp add: evaluate_and_trade_def bind_prog_def fetch_minute_bars_def three_world_def
      calm_world_def)





lemma three_trace_1:
  "trace_before three_world [''AAPL'', '' bad'', ''MSFT''] 1 tr =
     snd (evaluate_and_trade three_world ''AAPL'' tr)"
  by (simp add: trace_before_def handle_symbol_def norm_examples three_pipeline)



section \<open>The decision rule\<close>




section \<open>Short histories\<close>

text \<open>
  C5, as the code has it. Let the momentum index have its warm-up of 14 positions and
  let the fetch of a symbol return fewer than 15 closes. If the fetched frame holds at
  least one close, \<^verbatim>\<open>evaluate_and_trade\<close> returns \<^verbatim>\<open>insufficient_data\<close>; if it holds none
  (the frame is empty or has no column \<^verbatim>\<open>close\<close>) the earlier check returns \<^verbatim>\<open>no_data\<close>.
  Either way the action is neither \<^verbatim>\<open>buy\<close> nor \<^verbatim>\<open>sell\<close>, the fetch is the only call made
  and no order is submitted.
\<close>

theorem short_history_no_trade:
  assumes lookback: "rsi_lookback w"
    and fetch: "fetch_minute_bars w symbol (MINUTES_HISTORY w) tr = (Inr df, tr1)"
    and short: "length (rows df) < 15"
  shows "\<exists>a. evaluate_and_trade w symbol tr =
                (Inr [(''symbol'', Str symbol), (''action'', Str a)], tr @ [Get_stock_bars symbol]) \<and>
              a = (if df_empty df \<or> ''close'' \<notin> set (columns df) then ''no_data''
                   else ''insufficient_data'') \<and>
              a \<noteq> ''buy'' \<and> a \<noteq> ''sell'' \<and>
              orders (tr @ [Get_stock_bars symbol]) = orders tr"
proof -
  have "dropna (compute_indicators w (map snd (rows df))) = []"
    using short_history_no_rows [OF lookback] short by simp
  moreover have "tr1 = tr @ [Get_stock_bars symbol]"
    using fetch_trace [OF fetch] .
  ultimately show ?thesis
    using fetch
    by (simp add: evaluate_and_trade_def bind_prog_def return_prog_def orders_def)
qed

text \<open>Three closes: \<^verbatim>\<open>insufficient_data\<close>.\<close>

theorem short_history_no_trade_witness:
  "rsi_lookback short_world \<and>
   evaluate_and_trade short_world ''AAPL'' [] =
     (Inr [(''symbol'', Str ''AAPL''), (''action'', Str ''insufficient_data'')],
      [Get_stock_bars ''AAPL''])"
proof -
  define df where "df = Frame [''open'', ''close''] [(1 :: int, 10 :: real), (2, 9), (3, 8)]"
  have lookback: "rsi_lookback short_world"
    by (simp add: rsi_lookback_def short_world_def calm_world_def)
  have fetch: "fetch_minute_bars short_world ''AAPL'' (MINUTES_HISTORY short_world) []
      = (Inr df, [Get_stock_bars ''AAPL''])"
    by (simp add: fetch_minute_bars_def short_world_def calm_world_def df_def)
  have short: "length (rows df) < 15"
    and usable: "\<not> (df_empty df \<or> ''close'' \<notin> set (columns df))"
    by (simp_all add: df_def df_empty_def)
  from short_history_no_trade [OF lookback fetch short] usable lookback show ?thesis
    by auto
qed

text \<open>No close at all, which is fewer than 15: \<^verbatim>\<open>no_data\<close>, not \<^verbatim>\<open>insufficient_data\<close>.\<close>

theorem short_history_counterexample:
  "evaluate_and_trade silent_world ''AAPL'' [] =
     (Inr [(''symbol'', Str ''AAPL''), (''action'', Str ''no_data'')], [Get_stock_bars ''AAPL''])"
  by (simp add: evaluate_and_trade_def bind_prog_def fetch_minute_bars_def df_empty_def
      return_prog_def silent_world_def calm_world_def)

section \<open>Selling\<close>

text \<open>
  C8. Let the latest defined row of a symbol call for a SELL (m > 70 and c > e), let the
  three indicator metrics be published, and let the lookup of the position raise, which
  is how the brokerage client reports that there is no open position. Then
  \<^verbatim>\<open>evaluate_and_trade\<close> does not raise: it returns the record with action
  \<^verbatim>\<open>nothing_to_sell\<close>, its last call is the lookup, and no order is submitted.
\<close>

theorem sell_without_position:
  assumes fetch: "fetch_minute_bars w symbol (MINUTES_HISTORY w) tr = (Inr df, tr1)"
    and usable: "\<not> df_empty df" "''close'' \<in> set (columns df)"
    and row: "latest_row w df = Some (c, m, e)"
    and sell: "m > 70" "c > e"
    and pub: "publish_indicators w symbol (c, m, e) tr1 = (Inr (), tr2)"
    and nopos: "trading_get_position w tr2 symbol = Inl err"
  shows "evaluate_and_trade w symbol tr =
           (Inr [(''symbol'', Str symbol), (''action'', Str ''nothing_to_sell'')],
            tr2 @ [Get_position symbol]) \<and>
         orders (tr2 @ [Get_position symbol]) = orders tr"
proof -
  have "sell_block w symbol tr2 =
      (Inr [(''symbol'', Str symbol), (''action'', Str ''nothing_to_sell'')],
       tr2 @ [Get_position symbol])"
    by (simp add: sell_block_def try_except_def bind_prog_def get_position_def nopos
        return_prog_def)
  moreover have "orders tr2 = orders tr"
    using publish_indicators_trace [OF pub] fetch_orders [OF fetch] by simp
  ultimately show ?thesis
    using sell
    by (simp add: evaluate_decide [OF fetch usable row] decide_publish bind_prog_def pub
        orders_append) (simp add: orders_def)
qed

theorem sell_without_position_witness:
  "evaluate_and_trade flat_world ''AAPL'' [] =
     (Inr [(''symbol'', Str ''AAPL''), (''action'', Str ''nothing_to_sell'')],
      [Get_stock_bars ''AAPL'', Put_metric_data ''RSI'' [(''Symbol'', ''AAPL'')] 75,
       Put_metric_data ''EMA9'' [(''Symbol'', ''AAPL'')] 7,
       Put_metric_data ''Price'' [(''Symbol'', ''AAPL'')] 8, Get_position ''AAPL'']) \<and>
   orders [Get_stock_bars ''AAPL'', Put_metric_data ''RSI'' [(''Symbol'', ''AAPL'')] 75,
       Put_metric_data ''EMA9'' [(''Symbol'', ''AAPL'')] 7,
       Put_metric_data ''Price'' [(''Symbol'', ''AAPL'')] 8, Get_position ''AAPL''] = orders []"
proof -
  define df where
    "df = Frame [''open'', ''close''] (map (\<lambda>((s, t), c). (t, c)) (bars15 ''AAPL''))"
  define tr2 where
    "tr2 = [Get_stock_bars ''AAPL'', Put_metric_data ''RSI'' [(''Symbol'', ''AAPL'')] 75,
       Put_metric_data ''EMA9'' [(''Symbol'', ''AAPL'')] 7,
       Put_metric_data ''Price'' [(''Symbol'', ''AAPL'')] 8]"
  have fetch: "fetch_minute_bars flat_world ''AAPL'' (MINUTES_HISTORY flat_world) []
      = (Inr df, [Get_stock_bars ''AAPL''])"
    by (simp add: fetch_minute_bars_def flat_world_def rally_world_def calm_world_def
        bars15_def df_def)
  have usable: "\<not> df_empty df" "''close'' \<in> set (columns df)"
    by (simp_all add: df_def df_empty_def bars15_def)
  have row: "latest_row flat_world df = Some (8, 75, 7)"
    by (simp add: latest_row_def compute_indicators_def dropna_def List.map_filter_simps
        df_def bars15_def upt_15 flat_world_def rally_world_def calm_world_def)
  have pub: "publish_indicators flat_world ''AAPL'' (8, 75, 7) [Get_stock_bars ''AAPL'']
      = (Inr (), tr2)"
    by (simp add: publish_indicators_def publish_metric_def bind_prog_def tr2_def
        flat_world_def rally_world_def calm_world_def)
  have nopos: "trading_get_position flat_world tr2 ''AAPL'' = Inl (Exn ''position does not exist'')"
    by (simp add: flat_world_def rally_world_def calm_world_def)
  from sell_without_position [OF fetch usable row _ _ pub nopos] show ?thesis
    by (simp add: tr2_def)
qed

text \<open>
  C2. The handler of the \<^verbatim>\<open>try\<close> in the SELL block catches every exception, the one of
  \<^verbatim>\<open>submit_order\<close> included. In \<open>closed_world\<close> the position exists (10 shares), the sell
  order is submitted and the venue rejects it; the run returns \<^verbatim>\<open>nothing_to_sell\<close>, a
  record that is not an error, although the trace shows the order.
\<close>

theorem sell_rejection_swallowed:
  "evaluate_and_trade closed_world ''AAPL'' [] =
     (Inr [(''symbol'', Str ''AAPL''), (''action'', Str ''nothing_to_sell'')],
      [Get_stock_bars ''AAPL'', Put_metric_data ''RSI'' [(''Symbol'', ''AAPL'')] 75,
       Put_metric_data ''EMA9'' [(''Symbol'', ''AAPL'')] 7,
       Put_metric_data ''Price'' [(''Symbol'', ''AAPL'')] 8, Get_position ''AAPL'',
       Put_metric_data ''TradeQuantity'' [(''Symbol'', ''AAPL'')] 10,
       Put_metric_data ''PnL'' [(''Symbol'', ''AAPL'')] 5,
       Submit_order (MarketOrderRequest ''AAPL'' (Qty 10) SELL DAY)])"
  by (simp add: evaluate_and_trade_def bind_prog_def fetch_minute_bars_def df_empty_def
      compute_indicators_def dropna_def List.map_filter_simps upt_15 decide_def
      sell_block_def try_except_def get_position_def publish_metric_def submit_order_def
      return_prog_def closed_world_def rally_world_def calm_world_def bars15_def)

section \<open>Metrics\<close>




section \<open>Reads of the account\<close>

text \<open>
  C6, as the code has it. The first call of an invocation is the read of the account,
  before any work on a symbol. A pipeline reads the account again in its BUY block, to
  size the order: a pipeline reads it at most once, exactly once when it returns a
  \<^verbatim>\<open>buy\<close> record, and not at all when it returns any other record.
\<close>

theorem equity_read_points:
  "(\<exists>rest. snd (lambda_handler w tr) = tr @ Get_account # rest) \<and>
   (\<forall>symbol t res t'. evaluate_and_trade w symbol t = (res, t') \<longrightarrow>
      equity_reads t' \<le> equity_reads t + 1 \<and>
      (\<forall>r. res = Inr r \<longrightarrow>
         equity_reads t' =
           equity_reads t + (if field r ''action'' = Some (Str ''buy'') then 1 else 0)))"
proof -
  have first: "\<exists>rest. snd (lambda_handler w tr) = tr @ Get_account # rest"
  proof (cases "trading_get_account w tr")
    case (Inl err)
    then show ?thesis
      by (simp add: lambda_handler_def bind_prog_def get_portfolio_equity_def)
  next
    case (Inr equity)
    define d where "d = Put_metric_data ''Equity'' [(''Symbol'', ''Portfolio'')] equity"
    show ?thesis
    proof (cases "cw_put_metric_data w (tr @ [Get_account]) ''Equity''
        [(''Symbol'', ''Portfolio'')] equity")
      case (Some err)
      then show ?thesis
        using Inr
        by (simp add: lambda_handler_def bind_prog_def get_portfolio_equity_def publish_metric_def)
    next
      case None
      obtain u where
        "snd (symbols_loop w (SYMBOLS w) [] (tr @ [Get_account, d])) = (tr @ [Get_account, d]) @ u"
        using loop_ext by blast
      then show ?thesis
        using Inr None
        by (simp add: lambda_handler_def bind_prog_def get_portfolio_equity_def publish_metric_def
            d_def case_prod_beta)
    qed
  qed
  moreover have "equity_reads t' \<le> equity_reads t + 1 \<and>
      (\<forall>r. res = Inr r \<longrightarrow>
         equity_reads t' =
           equity_reads t + (if field r ''action'' = Some (Str ''buy'') then 1 else 0))"
    if "evaluate_and_trade w symbol t = (res, t')" for symbol t res t'
    using evaluate_facts [OF that] by simp
  ultimately show ?thesis by blast
qed

text \<open>A pipeline that buys reads the account once, one that lacks history not at all.\<close>

theorem equity_read_points_witness:
  "(\<exists>rest. snd (lambda_handler calm_world []) = [] @ Get_account # rest) \<and>
   equity_reads (snd (evaluate_and_trade calm_world ''AAPL'' [])) = equity_reads [] + 1 \<and>
   equity_reads (snd (evaluate_and_trade short_world ''AAPL'' [])) = equity_reads []"
proof -
  have short: "evaluate_and_trade short_world ''AAPL'' [] =
     (Inr [(''symbol'', Str ''AAPL''), (''action'', Str ''insufficient_data'')],
      [Get_stock_bars ''AAPL''])"
    by (simp add: eval_defs short_world_def calm_world_def)
  from equity_read_points [of calm_world "[]"] equity_read_points [of short_world "[]"]
    calm_pipeline_AAPL short
  show ?thesis
    by (auto simp: field_def)
qed

text \<open>One invocation, one symbol, a BUY: the account is read twice.\<close>

theorem equity_reread_counterexample:
  "equity_reads (snd (lambda_handler calm_world [])) = 2"
  by (simp add: eval_defs calm_world_def equity_reads_def)

section \<open>The loop and the handler\<close>

text \<open>
  C7. For every list of n configured symbols the loop returns exactly n records, in the
  order of the list. The record at position i is the one the pipeline of symbol i
  returns, run on the trace the earlier symbols have left; if that pipeline raises an
  exception with message \<open>msg\<close>, the record is the symbol, the action \<^verbatim>\<open>error\<close> and
  \<open>msg\<close>, and the symbols after it are processed all the same.
\<close>

theorem loop_isolates_failures:
  "length (fst (symbols_loop w syms [] tr)) = length syms \<and>
   (\<forall>i < length syms.
      fst (symbols_loop w syms [] tr) ! i =
        (case fst (evaluate_and_trade w (upper (strip (syms ! i))) (trace_before w syms i tr)) of
           Inl (Exn msg) \<Rightarrow>
             [(''symbol'', Str (syms ! i)), (''action'', Str ''error''), (''error'', Str msg)]
         | Inr r \<Rightarrow> r))"
  by (simp add: loop_length loop_nth handle_symbol_cases)

text \<open>Three symbols, the second of which raises during the fetch.\<close>

theorem loop_isolates_failures_witness:
  "length (fst (symbols_loop three_world [''AAPL'', '' bad'', ''MSFT''] [] [])) = 3 \<and>
   fst (symbols_loop three_world [''AAPL'', '' bad'', ''MSFT''] [] []) ! 0 =
     [(''symbol'', Str ''AAPL''), (''action'', Str ''buy''),
      (''order_id'', Str ''order-1''), (''notional'', Num 2000)] \<and>
   fst (symbols_loop three_world [''AAPL'', '' bad'', ''MSFT''] [] []) ! 1 =
     [(''symbol'', Str '' bad''), (''action'', Str ''error''), (''error'', Str ''fetch failed'')] \<and>
   fst (symbols_loop three_world [''AAPL'', '' bad'', ''MSFT''] [] []) ! 2 =
     [(''symbol'', Str ''MSFT''), (''action'', Str ''buy''),
      (''order_id'', Str ''order-1''), (''notional'', Num 2000)]"
proof -
  let ?S = "[''AAPL'', '' bad'', ''MSFT'']"
  note th = loop_isolates_failures [of three_world ?S "[]"]
  have len: "length (fst (symbols_loop three_world ?S [] [])) = 3"
    using th by (simp del: symbols_loop.simps)
  have slot: "fst (symbols_loop three_world ?S [] []) ! i =
      (case fst (evaluate_and_trade three_world (upper (strip (?S ! i)))
                  (trace_before three_world ?S i [])) of
         Inl (Exn msg) \<Rightarrow>
           [(''symbol'', Str (?S ! i)), (''action'', Str ''error''), (''error'', Str msg)]
       | Inr r \<Rightarrow> r)" if "i < 3" for i
    using th that by (simp del: symbols_loop.simps)
  have t1: "trace_before three_world ?S 1 [] = snd (evaluate_and_trade three_world ''AAPL'' [])"
    by (simp add: trace_before_def handle_symbol_def norm_examples three_pipeline)
  have t2: "trace_before three_world ?S 2 [] =
      snd (evaluate_and_trade three_world ''AAPL'' []) @ [Get_stock_bars ''BAD'']"
    by (simp add: trace_before_def handle_symbol_def norm_examples three_pipeline bad_pipeline
        numeral_2_eq_2)
  show ?thesis
    using len slot [of 0] slot [of 1] slot [of 2]
    by (simp add: t1 t2 trace_before_def norm_examples three_pipeline bad_pipeline
        del: symbols_loop.simps)
qed

text \<open>
  C3, as the code has it. The read of the account and the publication of the portfolio
  metric stand before the loop and outside its \<^verbatim>\<open>try\<close>. If the read raises, the handler
  raises the same exception; if the read returns and the publication raises, the handler
  raises that exception. If both return, then whatever the external calls do afterwards
  the handler returns status code 200 and a body of exactly one record per configured
  symbol, in their order: the record the symbol's pipeline returns on the trace the loop
  has reached, or, when that pipeline raises, the error record with the message of its
  exception.
\<close>

theorem handler_outcomes:
  "(\<forall>err. trading_get_account w tr = Inl err \<longrightarrow>
      lambda_handler w tr = (Inl err, tr @ [Get_account])) \<and>
   (\<forall>equity err.
      trading_get_account w tr = Inr equity \<and>
      cw_put_metric_data w (tr @ [Get_account]) ''Equity'' [(''Symbol'', ''Portfolio'')] equity
        = Some err \<longrightarrow>
      lambda_handler w tr =
        (Inl err, tr @ [Get_account, Put_metric_data ''Equity'' [(''Symbol'', ''Portfolio'')] equity])) \<and>
   (\<forall>equity.
      trading_get_account w tr = Inr equity \<and>
      cw_put_metric_data w (tr @ [Get_account]) ''Equity'' [(''Symbol'', ''Portfolio'')] equity
        = None \<longrightarrow>
      (\<exists>results tr'.
         lambda_handler w tr = (Inr \<lparr>statusCode = 200, body = results\<rparr>, tr') \<and>
         length results = length (SYMBOLS w) \<and>
         (\<forall>i < length (SYMBOLS w).
            results ! i =
              (case fst (evaluate_and_trade w (upper (strip (SYMBOLS w ! i)))
                          (trace_before w (SYMBOLS w) i
                             (tr @ [Get_account,
                                    Put_metric_data ''Equity'' [(''Symbol'', ''Portfolio'')] equity]))) of
                 Inl (Exn msg) \<Rightarrow>
                   [(''symbol'', Str (SYMBOLS w ! i)), (''action'', Str ''error''),
                    (''error'', Str msg)]
               | Inr r \<Rightarrow> r))))"
proof (intro conjI allI impI)
  fix err
  assume "trading_get_account w tr = Inl err"
  then show "lambda_handler w tr = (Inl err, tr @ [Get_account])"
    by (simp add: lambda_handler_def bind_prog_def get_portfolio_equity_def)
next
  fix equity err
  assume "trading_get_account w tr = Inr equity \<and>
      cw_put_metric_data w (tr @ [Get_account]) ''Equity'' [(''Symbol'', ''Portfolio'')] equity
        = Some err"
  then show "lambda_handler w tr =
        (Inl err, tr @ [Get_account, Put_metric_data ''Equity'' [(''Symbol'', ''Portfolio'')] equity])"
    by (simp add: lambda_handler_def bind_prog_def get_portfolio_equity_def publish_metric_def)
next
  fix equity
  assume a: "trading_get_account w tr = Inr equity \<and>
      cw_put_metric_data w (tr @ [Get_account]) ''Equity'' [(''Symbol'', ''Portfolio'')] equity
        = None"
  define tr2 where
    "tr2 = tr @ [Get_account, Put_metric_data ''Equity'' [(''Symbol'', ''Portfolio'')] equity]"
  define results where "results = fst (symbols_loop w (SYMBOLS w) [] tr2)"
  have h: "lambda_handler w tr =
      (Inr \<lparr>statusCode = 200, body = results\<rparr>, snd (symbols_loop w (SYMBOLS w) [] tr2))"
    using a
    by (simp add: lambda_handler_def bind_prog_def get_portfolio_equity_def publish_metric_def
        tr2_def results_def case_prod_beta)
  have len: "length results = length (SYMBOLS w)"
    by (simp add: results_def loop_length)
  have slots: "\<forall>i < length (SYMBOLS w).
      results ! i =
        (case fst (evaluate_and_trade w (upper (strip (SYMBOLS w ! i)))
                    (trace_before w (SYMBOLS w) i tr2)) of
           Inl (Exn msg) \<Rightarrow>
             [(''symbol'', Str (SYMBOLS w ! i)), (''action'', Str ''error''), (''error'', Str msg)]
         | Inr r \<Rightarrow> r)"
    by (simp add: results_def loop_nth handle_symbol_cases)
  from h len slots
  show "\<exists>results tr'.
         lambda_handler w tr = (Inr \<lparr>statusCode = 200, body = results\<rparr>, tr') \<and>
         length results = length (SYMBOLS w) \<and>
         (\<forall>i < length (SYMBOLS w).
            results ! i =
              (case fst (evaluate_and_trade w (upper (strip (SYMBOLS w ! i)))
                          (trace_before w (SYMBOLS w) i
                             (tr @ [Get_account,
                                    Put_metric_data ''Equity'' [(''Symbol'', ''Portfolio'')] equity]))) of
                 Inl (Exn msg) \<Rightarrow>
                   [(''symbol'', Str (SYMBOLS w ! i)), (''action'', Str ''error''),
                    (''error'', Str msg)]
               | Inr r \<Rightarrow> r))"
    unfolding tr2_def by blast
qed

text \<open>
  A world whose read of the account raises, one whose sink refuses the portfolio metric,
  and the three symbols of which the second raises during the fetch.
\<close>

theorem handler_outcomes_witness:
  "lambda_handler (calm_world \<lparr> trading_get_account := (\<lambda>tr. Inl (Exn ''forbidden'')) \<rparr>) [] =
     (Inl (Exn ''forbidden''), [Get_account]) \<and>
   lambda_handler deaf_world [] =
     (Inl (Exn ''Throttled''),
      [Get_account, Put_metric_data ''Equity'' [(''Symbol'', ''Portfolio'')] 100000]) \<and>
   (\<exists>results tr'.
      lambda_handler three_world [] = (Inr \<lparr>statusCode = 200, body = results\<rparr>, tr') \<and>
      length results = 3 \<and>
      results ! 1 =
        [(''symbol'', Str '' bad''), (''action'', Str ''error''), (''error'', Str ''fetch failed'')])"
proof -
  let ?w = "calm_world \<lparr> trading_get_account := (\<lambda>tr. Inl (Exn ''forbidden'')) \<rparr>"
  have 1: "lambda_handler ?w [] = (Inl (Exn ''forbidden''), [Get_account])"
    using handler_outcomes [of ?w "[]"] by simp
  have 2: "lambda_handler deaf_world [] =
     (Inl (Exn ''Throttled''),
      [Get_account, Put_metric_data ''Equity'' [(''Symbol'', ''Portfolio'')] 100000])"
    using handler_outcomes [of deaf_world "[]"] by (simp add: deaf_world_def calm_world_def)
  have acct: "trading_get_account three_world [] = Inr 100000"
    and pub: "cw_put_metric_data three_world ([] @ [Get_account]) ''Equity''
      [(''Symbol'', ''Portfolio'')] 100000 = None"
    and syms: "SYMBOLS three_world = [''AAPL'', '' bad'', ''MSFT'']"
    by (simp_all add: three_world_def calm_world_def)
  from handler_outcomes [of three_world "[]"] acct pub
  obtain results tr' where h:
    "lambda_handler three_world [] = (Inr \<lparr>statusCode = 200, body = results\<rparr>, tr')"
    "length results = length (SYMBOLS three_world)"
    "\<forall>i < length (SYMBOLS three_world).
            results ! i =
              (case fst (evaluate_and_trade three_world (upper (strip (SYMBOLS three_world ! i)))
                          (trace_before three_world (SYMBOLS three_world) i
                             ([] @ [Get_account,
                                    Put_metric_data ''Equity'' [(''Symbol'', ''Portfolio'')] 100000]))) of
                 Inl (Exn msg) \<Rightarrow>
                   [(''symbol'', Str (SYMBOLS three_world ! i)), (''action'', Str ''error''),
                    (''error'', Str msg)]
               | Inr r \<Rightarrow> r)"
    by blast
  from h(3) have "results ! 1 =
      [(''symbol'', Str '' bad''), (''action'', Str ''error''), (''error'', Str ''fetch failed'')]"
    by (simp add: syms three_trace_1 norm_examples bad_pipeline del: symbols_loop.simps)
  with h(1,2) syms have 3: "\<exists>results tr'.
      lambda_handler three_world [] = (Inr \<lparr>statusCode = 200, body = results\<rparr>, tr') \<and>
      length results = 3 \<and>
      results ! 1 =
        [(''symbol'', Str '' bad''), (''action'', Str ''error''), (''error'', Str ''fetch failed'')]"
    by simp
  from 1 2 3 show ?thesis by blast
qed

text \<open>The read of the account raises: so does the handler, and there is no response.\<close>

theorem handler_raises_counterexample:
  "lambda_handler offline_world [] = (Inl (Exn ''account unavailable''), [Get_account])"
  by (simp add: lambda_handler_def bind_prog_def get_portfolio_equity_def offline_world_def
      calm_world_def)

section \<open>The symbol of a record\<close>


end
